theory Spec2Isabelle
  imports Complex_Main "HOL-Library.Sublist"
begin

section \<open>Strings\<close>

text \<open>
  A Python \<open>str\<close> is a sequence of Unicode code points; a code point is a natural
  number. \<open>str.strip()\<close> removes leading and trailing whitespace, where whitespace is
  what \<open>str.isspace\<close> accepts.
\<close>

type_synonym str = "nat list"

definition isspace :: "nat \<Rightarrow> bool" where
  "isspace c \<longleftrightarrow>
     (9 \<le> c \<and> c \<le> 13) \<or> (28 \<le> c \<and> c \<le> 32) \<or> c = 133 \<or> c = 160 \<or> c = 5760 \<or>
     (8192 \<le> c \<and> c \<le> 8202) \<or> c = 8232 \<or> c = 8233 \<or> c = 8239 \<or> c = 8287 \<or> c = 12288"

definition strip :: "str \<Rightarrow> str" where
  "strip s = rev (dropWhile isspace (rev (dropWhile isspace s)))"

text \<open>Decimal rendering of integers, as \<open>str(n)\<close> and the f-string \<open>{n}\<close> give it.\<close>

fun digits :: "nat \<Rightarrow> str" where
  "digits n = (if n < 10 then [48 + n] else digits (n div 10) @ [48 + n mod 10])"

declare digits.simps [simp del]

definition str_int :: "int \<Rightarrow> str" where
  "str_int i = (if i < 0 then 45 # digits (nat (- i)) else digits (nat i))"

text \<open>The format \<open>%0wd\<close> of a non-negative number: zero-filled on the left to width \<open>w\<close>.\<close>

definition zfill :: "nat \<Rightarrow> str \<Rightarrow> str" where
  "zfill w s = replicate (w - length s) 48 @ s"

section \<open>Calendar dates\<close>

text \<open>
  \<open>datetime.date\<close>: year, month and day. The class only builds dates of the proleptic
  Gregorian calendar with \<open>1 \<le> year \<le> 9999\<close>; \<open>valid_date\<close> is that invariant.
  Dates compare as the triples (year, month, day).
\<close>

record date =
  year :: nat
  month :: nat
  day :: nat

definition is_leap :: "nat \<Rightarrow> bool" where
  "is_leap y \<longleftrightarrow> y mod 4 = 0 \<and> (y mod 100 \<noteq> 0 \<or> y mod 400 = 0)"

definition days_in_month :: "nat \<Rightarrow> nat \<Rightarrow> nat" where
  "days_in_month y m =
     (if m = 2 then (if is_leap y then 29 else 28)
      else if m = 4 \<or> m = 6 \<or> m = 9 \<or> m = 11 then 30 else 31)"

definition valid_date :: "date \<Rightarrow> bool" where
  "valid_date d \<longleftrightarrow>
     1 \<le> year d \<and> year d \<le> 9999 \<and> 1 \<le> month d \<and> month d \<le> 12 \<and>
     1 \<le> day d \<and> day d \<le> days_in_month (year d) (month d)"

definition date_le :: "date \<Rightarrow> date \<Rightarrow> bool" where
  "date_le a b \<longleftrightarrow>
     year a < year b \<or>
     (year a = year b \<and> (month a < month b \<or> (month a = month b \<and> day a \<le> day b)))"

definition date_lt :: "date \<Rightarrow> date \<Rightarrow> bool" where
  "date_lt a b \<longleftrightarrow>
     year a < year b \<or>
     (year a = year b \<and> (month a < month b \<or> (month a = month b \<and> day a < day b)))"

text \<open>\<open>date.isoformat()\<close>: the text \<open>YYYY-MM-DD\<close>.\<close>

definition isoformat :: "date \<Rightarrow> str" where
  "isoformat d =
     zfill 4 (digits (year d)) @ [45] @ zfill 2 (digits (month d)) @ [45] @
     zfill 2 (digits (day d))"

definition isdigit :: "nat \<Rightarrow> bool" where
  "isdigit c \<longleftrightarrow> 48 \<le> c \<and> c \<le> 57"

text \<open>
  The extended format of ISO 8601, which \<open>isoformat\<close> writes and which every version of
  \<open>date.fromisoformat\<close> reads: exactly ten characters \<open>YYYY-MM-DD\<close> of ASCII digits
  and hyphens, naming a date the class can build. \<open>iso_extended\<close> is \<open>None\<close> on any
  other text.
\<close>

fun iso_extended :: "str \<Rightarrow> date option" where
  "iso_extended [y1, y2, y3, y4, h1, m1, m2, h2, d1, d2] =
     (if isdigit y1 \<and> isdigit y2 \<and> isdigit y3 \<and> isdigit y4 \<and> h1 = 45 \<and>
         isdigit m1 \<and> isdigit m2 \<and> h2 = 45 \<and> isdigit d1 \<and> isdigit d2
      then
        let d = \<lparr>year = (y1 - 48) * 1000 + (y2 - 48) * 100 + (y3 - 48) * 10 + (y4 - 48),
                 month = (m1 - 48) * 10 + (m2 - 48),
                 day = (d1 - 48) * 10 + (d2 - 48)\<rparr>
        in if valid_date d then Some d else None
      else None)"
| "iso_extended _ = None"

declare iso_extended.simps [simp del]

section \<open>Errors\<close>

text \<open>The exception classes the tracker can meet.\<close>

datatype error =
  ValueError | KeyError | TypeError | OSError | JSONDecodeError | UnicodeEncodeError

section \<open>Expense\<close>

text \<open>
  The dataclass \<open>Expense\<close>. The amount is a Python number; its type is the parameter
  \<open>'a\<close>, and nothing is assumed of its arithmetic. After construction the id is always
  a string, so the record holds a string; the constructor takes the optional one.
\<close>

record 'a expense =
  amount :: 'a
  category :: str
  description :: str
  date :: date
  id' :: str

text \<open>
  What the program takes from the interpreter it runs on: the clock
  (\<open>int(datetime.datetime.now().timestamp())\<close>), today's date, the \<open>hash\<close> of a
  string, and what the library's \<open>date.fromisoformat\<close> makes of a text that is not in
  the extended format (\<open>iso_other\<close>). Up to Python 3.10 the library rejects every such
  text; from 3.11 on it reads further forms of ISO 8601, such as \<open>YYYYMMDD\<close> and week
  dates. The model fixes no version: \<open>iso_other\<close> is arbitrary. One call of a tracker
  operation sees one clock value.
\<close>

record env =
  now :: int
  today :: date
  hash :: "str \<Rightarrow> int"
  iso_other :: "str \<Rightarrow> date option"

text \<open>
  \<open>date.fromisoformat(s)\<close>: the date the text names, or \<open>None\<close> for the
  \<open>ValueError\<close> the library raises on a text it does not read.
\<close>

definition fromisoformat :: "env \<Rightarrow> str \<Rightarrow> date option" where
  "fromisoformat ev s = (case iso_extended s of Some d \<Rightarrow> Some d | None \<Rightarrow> iso_other ev s)"

definition generate_id :: "env \<Rightarrow> str \<Rightarrow> str" where
  "generate_id ev descr = str_int (now ev) @ [95] @ str_int (hash ev descr mod 10000)"

text \<open>
  The generated \<open>__init__\<close> followed by \<open>__post_init__\<close>. Neither checks the amount
  or the description, and neither raises: the result is always \<open>Inr\<close>.
\<close>

definition Expense ::
  "env \<Rightarrow> 'a \<Rightarrow> str \<Rightarrow> str \<Rightarrow> date \<Rightarrow> str option \<Rightarrow> error + 'a expense" where
  "Expense ev a c descr d ido =
     Inr \<lparr>amount = a, category = c, description = descr, date = d,
          id' = (case ido of None \<Rightarrow> generate_id ev descr | Some i \<Rightarrow> i)\<rparr>"

text \<open>
  The dict that \<open>to_dict\<close> builds and \<open>from_dict\<close> reads, typed by the annotations of
  the dataclass: each of the five keys is absent (\<open>None\<close>) or holds a value of its
  field's type, the date as text. For the key \<open>id\<close>, \<open>None\<close> is an absent key or a
  null, which the constructor treats alike. \<open>k_other\<close> lists the keys that are no
  field of the dataclass.
\<close>

record 'a expense_dict =
  k_amount :: "'a option"
  k_category :: "str option"
  k_description :: "str option"
  k_date :: "str option"
  k_id :: "str option"
  k_other :: "str list"

definition to_dict :: "'a expense \<Rightarrow> 'a expense_dict" where
  "to_dict e =
     \<lparr>k_amount = Some (amount e), k_category = Some (category e),
      k_description = Some (description e), k_date = Some (isoformat (date e)),
      k_id = Some (id' e), k_other = []\<rparr>"

text \<open>
  \<open>from_dict\<close>: \<open>data['date']\<close> raises \<open>KeyError\<close> on a missing key,
  \<open>fromisoformat\<close> raises \<open>ValueError\<close>, and \<open>cls(**data)\<close> raises \<open>TypeError\<close> on
  an unexpected keyword or a missing required argument.
\<close>

definition from_dict :: "env \<Rightarrow> 'a expense_dict \<Rightarrow> error + 'a expense" where
  "from_dict ev data =
     (case k_date data of
        None \<Rightarrow> Inl KeyError
      | Some s \<Rightarrow>
          (case fromisoformat ev s of
             None \<Rightarrow> Inl ValueError
           | Some d \<Rightarrow>
               if k_other data \<noteq> [] then Inl TypeError
               else
                 (case (k_amount data, k_category data, k_description data) of
                    (Some a, Some c, Some descr) \<Rightarrow> Expense ev a c descr d (k_id data)
                  | _ \<Rightarrow> Inl TypeError)))"

section \<open>Numbers\<close>

text \<open>
  The amounts are Python floats. Their arithmetic belongs to the interpreter, not to the
  tracker, so the operations the tracker applies to amounts are parameters of the
  model, and the theorems hold for every interpretation of them:
  \<open>op_le_zero x\<close> is \<open>x <= 0\<close>, \<open>op_add x y\<close> is \<open>x + y\<close>, \<open>op_sum xs\<close> is the
  built-in \<open>sum(xs)\<close>, \<open>op_div x n\<close> is \<open>x / n\<close> for a length \<open>n\<close>,
  \<open>op_round2 x\<close> is \<open>round(x, 2)\<close> and \<open>op_zero\<close> is the literal \<open>0.0\<close>.
\<close>

record 'a number_ops =
  op_le_zero :: "'a \<Rightarrow> bool"
  op_add :: "'a \<Rightarrow> 'a \<Rightarrow> 'a"
  op_sum :: "'a list \<Rightarrow> 'a"
  op_div :: "'a \<Rightarrow> nat \<Rightarrow> 'a"
  op_round2 :: "'a \<Rightarrow> 'a"
  op_zero :: 'a

section \<open>The backing file\<close>

text \<open>
  The text of a file is identified with what \<open>json.load\<close> makes of it: text that is no
  JSON (\<open>Malformed\<close>), such as the empty text of a file just opened for writing or the
  beginning of a dump that an exception cut short, or a JSON value. The text a completed
  \<open>json.dump\<close> writes for a value is the text \<open>json.load\<close> reads that value from:
  strings, and numbers by their \<open>repr\<close>, are read back as they were written. Of a JSON value the tracker only
  distinguishes three cases: an array; an empty object or empty string
  (\<open>EmptyIterable\<close>), over which the comprehension of the load runs without a step;
  and any other value (\<open>NotArray\<close>), which cannot be iterated or yields strings. In an
  array it distinguishes an object, typed as \<open>expense_dict\<close>, from anything else.
\<close>

datatype 'a item = Object "'a expense_dict" | NotObject

datatype 'a json = Array "'a item list" | EmptyIterable | NotArray

datatype 'a content = Malformed | Json "'a json"

text \<open>
  What is at a path: nothing (\<open>NoFile c\<close>, where \<open>c\<close> tells whether opening the path
  for writing can create the file), or a file (\<open>File r w t\<close>) with text \<open>t\<close> that can
  be opened for reading if \<open>r\<close> and for writing if \<open>w\<close>.
\<close>

datatype 'a node = NoFile bool | File bool bool "'a content"

type_synonym 'a fs = "str \<Rightarrow> 'a node"

definition exists :: "'a fs \<Rightarrow> str \<Rightarrow> bool" where
  "exists fs p = (case fs p of NoFile c \<Rightarrow> False | File r w t \<Rightarrow> True)"

definition open_read :: "'a fs \<Rightarrow> str \<Rightarrow> error + 'a content" where
  "open_read fs p = (case fs p of File True w t \<Rightarrow> Inr t | _ \<Rightarrow> Inl OSError)"

text \<open>
  \<open>open(p, 'w')\<close> creates the file if there is none and empties it if there is one,
  before anything is written.
\<close>

definition open_write :: "'a fs \<Rightarrow> str \<Rightarrow> error + 'a fs" where
  "open_write fs p =
     (case fs p of
        NoFile True \<Rightarrow> Inr (fs(p := File True True Malformed))
      | NoFile False \<Rightarrow> Inl OSError
      | File r True old \<Rightarrow> Inr (fs(p := File r True Malformed))
      | File r False old \<Rightarrow> Inl OSError)"

text \<open>The text of the open file after a write that ran to its end.\<close>

definition write_text :: "'a fs \<Rightarrow> str \<Rightarrow> 'a content \<Rightarrow> 'a fs" where
  "write_text fs p t = (case fs p of NoFile c \<Rightarrow> fs | File r w old \<Rightarrow> fs(p := File r w t))"

definition json_load :: "'a content \<Rightarrow> error + 'a json" where
  "json_load t = (case t of Malformed \<Rightarrow> Inl JSONDecodeError | Json j \<Rightarrow> Inr j)"

text \<open>
  A string can be written to a file opened with \<open>encoding='utf-8'\<close> unless it holds a
  surrogate code point (U+D800 to U+DFFF), on which the encoder raises
  \<open>UnicodeEncodeError\<close>. A Python string may hold one: \<open>add_expense\<close> accepts it, and
  \<open>json.load\<close> produces it from the escape \<open>\ud800\<close>. The code points of a string
  end at U+10FFFF.
\<close>

definition utf8_encodable :: "str \<Rightarrow> bool" where
  "utf8_encodable s \<longleftrightarrow> list_all (\<lambda>c. c < 55296 \<or> (57343 < c \<and> c < 1114112)) s"

definition opt_encodable :: "str option \<Rightarrow> bool" where
  "opt_encodable x = (case x of None \<Rightarrow> True | Some s \<Rightarrow> utf8_encodable s)"

text \<open>The strings of a dict: its keys, all ASCII but the foreign ones, and its values.\<close>

definition dict_encodable :: "'a expense_dict \<Rightarrow> bool" where
  "dict_encodable d \<longleftrightarrow>
     opt_encodable (k_category d) \<and> opt_encodable (k_description d) \<and>
     opt_encodable (k_date d) \<and> opt_encodable (k_id d) \<and> list_all utf8_encodable (k_other d)"

text \<open>
  \<open>json.dump(data, f, ensure_ascii=False, indent=2)\<close> into the open file: the text
  written when every string of the data can be encoded, the exception otherwise. The
  strings are written unescaped, so the exception arises in the middle of the writing.
\<close>

definition json_dump :: "'a expense_dict list \<Rightarrow> error + 'a content" where
  "json_dump ds =
     (if list_all dict_encodable ds then Inr (Json (Array (map Object ds)))
      else Inl UnicodeEncodeError)"

section \<open>ExpenseTracker\<close>

record 'a tracker =
  data_file :: str
  expenses :: "'a expense list"
  categories :: "str set"

text \<open>The nine categories \<open>__init__\<close> starts with, as code points.\<close>

definition default_categories :: "str set" where
  "default_categories =
     {[39135, 29289], [20132, 36890], [23067, 27138], [36092, 29289], [37291, 30274],
      [25945, 32946], [25151, 31199], [27700, 38651], [20854, 20182]}"

text \<open>
  A call either returns a value or raises; either way it leaves a tracker and a file
  system behind, so the operations return both beside the outcome.
\<close>

datatype 'r outcome = Returns 'r | Raises error

text \<open>
  \<open>Expense.from_dict(item)\<close> for an element of the loaded array: subscripting
  anything but a dict with \<open>'date'\<close> raises \<open>TypeError\<close>.
\<close>

fun from_item :: "env \<Rightarrow> 'a item \<Rightarrow> error + 'a expense" where
  "from_item ev (Object d) = from_dict ev d"
| "from_item ev NotObject = Inl TypeError"

text \<open>The comprehension \<open>[Expense.from_dict(item) for item in data]\<close>: the first
  exception ends it.\<close>

fun from_items :: "env \<Rightarrow> 'a item list \<Rightarrow> error + 'a expense list" where
  "from_items ev [] = Inr []"
| "from_items ev (i # is) =
     (case from_item ev i of
        Inl e \<Rightarrow> Inl e
      | Inr x \<Rightarrow> (case from_items ev is of Inl e \<Rightarrow> Inl e | Inr xs \<Rightarrow> Inr (x # xs)))"

text \<open>
  The body of the \<open>try\<close> in \<open>_load_expenses\<close>: \<open>Inr None\<close> when the file does not
  exist and nothing is assigned, \<open>Inr (Some es)\<close> when \<open>self.expenses\<close> is assigned
  \<open>es\<close>, \<open>Inl\<close> the exception otherwise. A number, a boolean or null cannot be
  iterated, and a non-empty object or string yields strings, which \<open>from_dict\<close> cannot
  subscript with \<open>'date'\<close>: a \<open>TypeError\<close> either way.
\<close>

definition load_try :: "env \<Rightarrow> 'a fs \<Rightarrow> str \<Rightarrow> error + 'a expense list option" where
  "load_try ev fs p =
     (if exists fs p then
        (case open_read fs p of
           Inl e \<Rightarrow> Inl e
         | Inr t \<Rightarrow>
             (case json_load t of
                Inl e \<Rightarrow> Inl e
              | Inr NotArray \<Rightarrow> Inl TypeError
              | Inr EmptyIterable \<Rightarrow> Inr (Some [])
              | Inr (Array items) \<Rightarrow>
                  (case from_items ev items of Inl e \<Rightarrow> Inl e | Inr es \<Rightarrow> Inr (Some es))))
      else Inr None)"

definition load_expenses :: "env \<Rightarrow> 'a fs \<Rightarrow> 'a tracker \<Rightarrow> 'a tracker" where
  "load_expenses ev fs self =
     (case load_try ev fs (data_file self) of
        Inl e \<Rightarrow> self\<lparr>expenses := []\<rparr>
      | Inr None \<Rightarrow> self
      | Inr (Some es) \<Rightarrow> self\<lparr>expenses := es\<rparr>)"

text \<open>\<open>ExpenseTracker(data_file)\<close>: \<open>__init__\<close>. Every exception of the load is caught
  inside \<open>_load_expenses\<close>, so construction always returns a tracker.\<close>

definition ExpenseTracker :: "env \<Rightarrow> 'a fs \<Rightarrow> str \<Rightarrow> error + 'a tracker" where
  "ExpenseTracker ev fs p =
     Inr (load_expenses ev fs \<lparr>data_file = p, expenses = [], categories = default_categories\<rparr>)"

text \<open>
  \<open>_save_expenses\<close>. Every exception is caught. When the file cannot be opened the
  file system stays as it was. When \<open>json.dump\<close> raises, the file has been emptied by
  the opening and holds at most the beginning of the dump: no JSON. Faults of the device
  during the writing (a full disk) are not modelled.
\<close>

definition save_expenses :: "'a fs \<Rightarrow> 'a tracker \<Rightarrow> 'a fs" where
  "save_expenses fs self =
     (let data = map to_dict (expenses self)
      in case open_write fs (data_file self) of
           Inl e \<Rightarrow> fs
         | Inr fs1 \<Rightarrow>
             (case json_dump data of
                Inl e \<Rightarrow> fs1
              | Inr t \<Rightarrow> write_text fs1 (data_file self) t))"

text \<open>
  \<open>add_expense\<close>. The two checks raise \<open>ValueError\<close>, which the handler re-raises,
  before anything is changed. Any other exception of the body would be answered with
  \<open>False\<close>.
\<close>

definition add_expense ::
  "'a number_ops \<Rightarrow> env \<Rightarrow> 'a fs \<Rightarrow> 'a tracker \<Rightarrow> 'a \<Rightarrow> str \<Rightarrow> str \<Rightarrow> date option \<Rightarrow>
     bool outcome \<times> 'a tracker \<times> 'a fs" where
  "add_expense ops ev fs self amnt cat descr dt =
     (if op_le_zero ops amnt then (Raises ValueError, self, fs)
      else if strip descr = [] then (Raises ValueError, self, fs)
      else
        let expense_date = (case dt of None \<Rightarrow> today ev | Some d \<Rightarrow> d);
            self1 = self\<lparr>categories := insert cat (categories self)\<rparr>
        in (case Expense ev amnt cat (strip descr) expense_date None of
              Inl e \<Rightarrow>
                (if e = ValueError then (Raises ValueError, self1, fs)
                 else (Returns False, self1, fs))
            | Inr expense \<Rightarrow>
                let self2 = self1\<lparr>expenses := expenses self1 @ [expense]\<rparr>
                in (Returns True, self2, save_expenses fs self2)))"

text \<open>\<open>remove_expense\<close>: the comprehension keeps the records with another id.\<close>

definition remove_expense ::
  "'a fs \<Rightarrow> 'a tracker \<Rightarrow> str \<Rightarrow> bool outcome \<times> 'a tracker \<times> 'a fs" where
  "remove_expense fs self expense_id =
     (let original_count = length (expenses self);
          self1 = self\<lparr>expenses := filter (\<lambda>exp. id' exp \<noteq> expense_id) (expenses self)\<rparr>
      in if length (expenses self1) < original_count
         then (Returns True, self1, save_expenses fs self1)
         else (Returns False, self1, fs))"

definition get_expenses_by_category :: "'a tracker \<Rightarrow> str \<Rightarrow> 'a expense list" where
  "get_expenses_by_category self cat = filter (\<lambda>exp. category exp = cat) (expenses self)"

definition get_expenses_by_date_range :: "'a tracker \<Rightarrow> date \<Rightarrow> date \<Rightarrow> 'a expense list" where
  "get_expenses_by_date_range self start_date end_date =
     filter (\<lambda>exp. date_le start_date (date exp) \<and> date_le (date exp) end_date) (expenses self)"

text \<open>
  The loop that both \<open>calculate_total_by_category\<close> and \<open>calculate_monthly_summary\<close>
  run over a list of expenses, updating a dict from category to amount.
\<close>

fun category_loop ::
  "'a number_ops \<Rightarrow> (str \<rightharpoonup> 'a) \<Rightarrow> 'a expense list \<Rightarrow> (str \<rightharpoonup> 'a)" where
  "category_loop ops totals [] = totals"
| "category_loop ops totals (expense # rest) =
     category_loop ops
       (case totals (category expense) of
          Some t \<Rightarrow> totals(category expense \<mapsto> op_add ops t (amount expense))
        | None \<Rightarrow> totals(category expense \<mapsto> amount expense))
       rest"

definition calculate_total_by_category :: "'a number_ops \<Rightarrow> 'a tracker \<Rightarrow> (str \<rightharpoonup> 'a)" where
  "calculate_total_by_category ops self = category_loop ops Map.empty (expenses self)"

record 'a summary =
  total_amount :: 'a
  expense_count :: nat
  average_amount :: 'a
  summary_categories :: "str \<rightharpoonup> 'a"

definition calculate_monthly_summary ::
  "'a number_ops \<Rightarrow> 'a tracker \<Rightarrow> int \<Rightarrow> int \<Rightarrow> 'a summary" where
  "calculate_monthly_summary ops self y m =
     (let monthly_expenses =
            filter (\<lambda>exp. int (year (date exp)) = y \<and> int (month (date exp)) = m) (expenses self)
      in if monthly_expenses = [] then
           \<lparr>total_amount = op_zero ops, expense_count = 0, average_amount = op_zero ops,
            summary_categories = Map.empty\<rparr>
         else
           let total = op_sum ops (map amount monthly_expenses);
               cnt = length monthly_expenses;
               average = op_div ops total cnt
           in \<lparr>total_amount = op_round2 ops total, expense_count = cnt,
               average_amount = op_round2 ops average,
               summary_categories = category_loop ops Map.empty monthly_expenses\<rparr>)"

section \<open>The subtotal of a category, as specified\<close>

text \<open>
  What the specification calls the subtotal of a category over a list of expenses: the
  amounts of the records of that category, added from left to right, and no entry for a
  category without a record. \<open>category_loop\<close> above is the code; the two are compared
  below.
\<close>

definition subtotal :: "'a number_ops \<Rightarrow> 'a expense list \<Rightarrow> str \<Rightarrow> 'a option" where
  "subtotal ops es c =
     (case filter (\<lambda>e. category e = c) es of
        [] \<Rightarrow> None
      | x # xs \<Rightarrow> Some (foldl (op_add ops) (amount x) (map amount xs)))"

section \<open>Example values\<close>

text \<open>
  Concrete inputs on which the theorems below are evaluated. Numbers are taken as exact
  reals there: \<open>exact_ops\<close> interprets the operations on amounts without rounding
  error, with \<open>round(x, 2)\<close> rounding half to even. The dates, categories and
  descriptions follow the test suite; \<open>fs0\<close> is a file system with no file.
\<close>

definition june15 :: date where
  "june15 = \<lparr>year = 2024, month = 6, day = 15\<rparr>"

definition env0 :: env where
  "env0 = \<lparr>now = 1718409600, today = june15, hash = (\<lambda>s. int (length s)),
     iso_other = (\<lambda>s. None)\<rparr>"

definition lunch :: str where
  "lunch = [108, 117, 110, 99, 104]"

definition food :: str where
  "food = [102, 111, 111, 100]"

definition round_half_even :: "real \<Rightarrow> int" where
  "round_half_even q =
     (let f = \<lfloor>q\<rfloor>; r = q - of_int f
      in if r < 1 / 2 then f else if 1 / 2 < r then f + 1 else if even f then f else f + 1)"

definition exact_ops :: "real number_ops" where
  "exact_ops =
     \<lparr>op_le_zero = (\<lambda>x. x \<le> 0), op_add = (\<lambda>x y. x + y), op_sum = sum_list,
      op_div = (\<lambda>x n. x / of_nat n), op_round2 = (\<lambda>x. of_int (round_half_even (x * 100)) / 100),
      op_zero = 0\<rparr>"

definition fs0 :: "real fs" where
  "fs0 = (\<lambda>p. NoFile True)"

definition tracker0 :: "real tracker" where
  "tracker0 = \<lparr>data_file = [100, 98], expenses = [], categories = default_categories\<rparr>"

definition expense1 :: "real expense" where
  "expense1 = \<lparr>amount = 50, category = food, description = lunch, date = june15,
     id' = [105, 100, 49]\<rparr>"

definition expense2 :: "real expense" where
  "expense2 = \<lparr>amount = 80, category = food, description = lunch,
     date = \<lparr>year = 2024, month = 5, day = 15\<rparr>, id' = [105, 100, 49]\<rparr>"

definition expense3 :: "real expense" where
  "expense3 = \<lparr>amount = 200, category = [102, 117, 110], description = lunch,
     date = \<lparr>year = 2024, month = 6, day = 30\<rparr>, id' = [105, 100, 51]\<rparr>"

definition tracker3 :: "real tracker" where
  "tracker3 = \<lparr>data_file = [100, 98], expenses = [expense1, expense2, expense3],
     categories = default_categories\<rparr>"

definition fs3 :: "real fs" where
  "fs3 = (\<lambda>p. NoFile True)([100, 98] := File True False Malformed)"

definition bad_dict :: "real expense_dict" where
  "bad_dict = (to_dict expense2)\<lparr>k_date := Some [50, 48, 50, 52, 45, 54, 45, 49, 53]\<rparr>"

definition fs4 :: "real fs" where
  "fs4 = (\<lambda>p. NoFile True)
     ([100, 98] := File True True (Json (Array [Object (to_dict expense1), Object bad_dict])))"




text \<open>A tracker holding one record whose description is the lone surrogate U+D800.\<close>

definition surrogate_tracker :: "real tracker" where
  "surrogate_tracker =
     \<lparr>data_file = [100, 98],
      expenses = [\<lparr>amount = 50, category = food, description = [55296], date = june15,
                   id' = [105, 100, 49]\<rparr>],
      categories = default_categories\<rparr>"





definition may15 :: date where
  "may15 = \<lparr>year = 2024, month = 5, day = 15\<rparr>"

definition shopping :: str where
  "shopping = [115, 104, 111, 112]"

definition june_tracker :: "real tracker" where
  "june_tracker =
     \<lparr>data_file = [100, 98],
      expenses =
        [\<lparr>amount = 100, category = food, description = lunch, date = june15, id' = [49]\<rparr>,
         \<lparr>amount = 200, category = shopping, description = lunch, date = june15, id' = [50]\<rparr>,
         \<lparr>amount = 80, category = food, description = lunch, date = june15, id' = [51]\<rparr>,
         \<lparr>amount = 50, category = food, description = lunch, date = may15, id' = [52]\<rparr>],
      categories = default_categories\<rparr>"

section \<open>Properties of the date format\<close>

lemma digits_small: "n < 10 \<Longrightarrow> digits n = [48 + n]"
  by (simp add: digits.simps [of n])

lemma digits_step: "10 \<le> n \<Longrightarrow> digits n = digits (n div 10) @ [48 + n mod 10]"
  by (simp add: digits.simps [of n])

lemma digits2: "10 \<le> n \<Longrightarrow> n < 100 \<Longrightarrow> digits n = [48 + n div 10, 48 + n mod 10]"
  by (simp add: digits_step digits_small)

lemma digits3:
  assumes "100 \<le> n" "n < 1000"
  shows "digits n = [48 + n div 100, 48 + n div 10 mod 10, 48 + n mod 10]"
proof -
  have a: "n div 10 div 10 = n div 100" by (simp add: div_mult2_eq [symmetric])
  have b: "10 \<le> n div 10" "n div 10 < 100" using assms by simp_all
  have "digits n = digits (n div 10) @ [48 + n mod 10]"
    using assms by (simp add: digits_step)
  also have "digits (n div 10) = [48 + n div 10 div 10, 48 + n div 10 mod 10]"
    using b by (rule digits2)
  finally show ?thesis by (simp add: a)
qed

lemma digits4:
  assumes "1000 \<le> n" "n < 10000"
  shows "digits n = [48 + n div 1000, 48 + n div 100 mod 10, 48 + n div 10 mod 10, 48 + n mod 10]"
proof -
  have a: "n div 10 div 100 = n div 1000" "n div 10 div 10 = n div 100"
    by (simp_all add: div_mult2_eq [symmetric])
  have b: "100 \<le> n div 10" "n div 10 < 1000" using assms by simp_all
  have "digits n = digits (n div 10) @ [48 + n mod 10]"
    using assms by (simp add: digits_step)
  also have "digits (n div 10) =
      [48 + n div 10 div 100, 48 + n div 10 div 10 mod 10, 48 + n div 10 mod 10]"
    using b by (rule digits3)
  finally show ?thesis by (simp add: a)
qed

lemma zfill2_digits:
  assumes "n < 100"
  shows "zfill 2 (digits n) = [48 + n div 10, 48 + n mod 10]"
proof (cases "n < 10")
  case True
  then show ?thesis
    by (simp add: zfill_def digits.simps [of n])
next
  case False
  with assms have "n div 10 < 10" by simp
  with False show ?thesis
    by (simp add: zfill_def digits.simps [of n] digits.simps [of "n div 10"])
qed

lemma zfill4_digits:
  assumes "n < 10000"
  shows "zfill 4 (digits n) =
    [48 + n div 1000, 48 + n div 100 mod 10, 48 + n div 10 mod 10, 48 + n mod 10]"
proof -
  have rep: "replicate 3 x = [x, x, x]" "replicate 2 x = [x, x]" for x :: nat
    by (simp_all add: numeral_3_eq_3 numeral_2_eq_2)
  consider "n < 10" | "10 \<le> n" "n < 100" | "100 \<le> n" "n < 1000" | "1000 \<le> n"
    by linarith
  then show ?thesis
  proof cases
    case 1
    then show ?thesis by (simp add: zfill_def digits_small rep)
  next
    case 2
    then show ?thesis by (simp add: zfill_def digits2 rep)
  next
    case 3
    then show ?thesis by (simp add: zfill_def digits3)
  next
    case 4
    with assms show ?thesis by (simp add: zfill_def digits4)
  qed
qed

lemma days_in_month_le: "days_in_month y m \<le> 31"
  by (simp add: days_in_month_def)

lemma dec2: "(n::nat) div 10 * 10 + n mod 10 = n"
  by simp

lemma dec4:
  "(n::nat) div 1000 * 1000 + n div 100 mod 10 * 100 + n div 10 mod 10 * 10 + n mod 10 = n"
proof -
  have a: "n div 100 = n div 10 div 10" "n div 1000 = n div 10 div 10 div 10"
    by (simp_all add: div_mult2_eq [symmetric])
  have "n = n div 10 * 10 + n mod 10" by simp
  moreover have "n div 10 = n div 10 div 10 * 10 + n div 10 mod 10" by simp
  moreover have "n div 10 div 10 = n div 10 div 10 div 10 * 10 + n div 10 div 10 mod 10" by simp
  ultimately show ?thesis unfolding a by linarith
qed

lemma iso_extended_isoformat:
  assumes "valid_date d"
  shows "iso_extended (isoformat d) = Some d"
proof -
  define y m dd where "y = year d" and "m = month d" and "dd = day d"
  from assms have y: "y < 10000" and m: "m < 100" and dd: "dd < 100"
    using days_in_month_le [of "year d" "month d"] by (simp_all add: valid_date_def y_def m_def dd_def)
  have iso: "isoformat d =
      [48 + y div 1000, 48 + y div 100 mod 10, 48 + y div 10 mod 10, 48 + y mod 10, 45,
       48 + m div 10, 48 + m mod 10, 45, 48 + dd div 10, 48 + dd mod 10]"
    unfolding isoformat_def y_def [symmetric] m_def [symmetric] dd_def [symmetric]
    by (simp add: zfill4_digits [OF y] zfill2_digits [OF m] zfill2_digits [OF dd])
  have dig: "isdigit (48 + k)" if "k < 10" for k
    using that by (simp add: isdigit_def)
  have y1: "y div 1000 < 10" using y by simp
  have m1: "m div 10 < 10" using m by simp
  have d1: "dd div 10 < 10" using dd by simp
  have r: "\<lparr>year = y, month = m, day = dd\<rparr> = d"
    by (simp add: y_def m_def dd_def)
  show ?thesis
    unfolding iso
    using assms by (simp add: iso_extended.simps dig y1 m1 d1 dec4 dec2 r)
qed

lemma fromisoformat_isoformat: "valid_date d \<Longrightarrow> fromisoformat ev (isoformat d) = Some d"
  by (simp add: fromisoformat_def iso_extended_isoformat)

lemma utf8_encodable_append [simp]:
  "utf8_encodable (xs @ ys) \<longleftrightarrow> utf8_encodable xs \<and> utf8_encodable ys"
  by (simp add: utf8_encodable_def)

lemma digits_encodable: "utf8_encodable (digits n)"
proof (induction n rule: digits.induct)
  case (1 n)
  show ?case
  proof (cases "n < 10")
    case True
    then show ?thesis by (simp add: digits_small utf8_encodable_def)
  next
    case False
    then have "utf8_encodable (digits (n div 10))" by (rule "1.IH")
    moreover have "n mod 10 < 10" by simp
    then have "48 + n mod 10 < 55296" by linarith
    then have "utf8_encodable [48 + n mod 10]" by (simp add: utf8_encodable_def)
    ultimately show ?thesis using False by (simp add: digits_step)
  qed
qed

lemma zfill_encodable: "utf8_encodable s \<Longrightarrow> utf8_encodable (zfill w s)"
  by (simp add: zfill_def) (simp add: utf8_encodable_def list_all_iff)

lemma utf8_encodable_Cons:
  "utf8_encodable (c # s) \<longleftrightarrow>
     (c < 55296 \<or> (57343 < c \<and> c < 1114112)) \<and> utf8_encodable s"
  by (simp add: utf8_encodable_def)

lemma isoformat_encodable: "utf8_encodable (isoformat d)"
  by (simp add: isoformat_def utf8_encodable_Cons zfill_encodable digits_encodable)

section \<open>Serialize and Deserialize\<close>

lemma valid_june15: "valid_date june15"
  by (simp add: valid_date_def june15_def days_in_month_def)

lemma from_dict_inverse:
  "valid_date (date e) \<Longrightarrow> from_dict ev (to_dict e) = Inr e"
  by (simp add: from_dict_def to_dict_def fromisoformat_isoformat Expense_def)

text \<open>
  C5. Serialize then Deserialize: for every Expense (its date a date of the calendar, as
  every \<open>datetime.date\<close> is), \<open>from_dict (to_dict e)\<close> succeeds and returns a record
  with the same amount, category, description, date and id.
\<close>

theorem from_dict_to_dict:
  assumes "valid_date (date e)"
  shows "from_dict ev (to_dict e) = Inr e"
  using assms by (rule from_dict_inverse)

theorem from_dict_to_dict_witness:
  "valid_date (date expense1) \<and> from_dict env0 (to_dict expense1) = Inr expense1"
  using from_dict_to_dict [of expense1 env0] valid_june15 by (simp add: expense1_def)

section \<open>Adding and removing\<close>

lemma add_expense_rejects:
  assumes "op_le_zero ops amnt \<or> strip descr = []"
  shows "add_expense ops ev fs self amnt cat descr dt = (Raises ValueError, self, fs)"
  using assms by (auto simp: add_expense_def)

text \<open>
  C1. A call of \<open>add_expense\<close> whose amount satisfies \<open>amount <= 0\<close>, or whose
  description is empty after stripping, raises \<open>ValueError\<close> to the caller, and the
  tracker (its list of expenses included) and the file system are exactly as before.
\<close>

theorem add_expense_invalid:
  assumes "op_le_zero ops amnt \<or> strip descr = []"
  shows "add_expense ops ev fs self amnt cat descr dt = (Raises ValueError, self, fs)"
  using assms by (rule add_expense_rejects)

lemma strip_spaces: "strip [32, 32, 32] = []"
  by (simp add: strip_def isspace_def)

theorem add_expense_invalid_witness:
  "(op_le_zero exact_ops (- 10) \<or> strip lunch = []) \<and>
   add_expense exact_ops env0 fs0 tracker0 (- 10) food lunch (Some june15) =
     (Raises ValueError, tracker0, fs0) \<and>
   (op_le_zero exact_ops 50 \<or> strip [32, 32, 32] = []) \<and>
   add_expense exact_ops env0 fs0 tracker0 50 food [32, 32, 32] (Some june15) =
     (Raises ValueError, tracker0, fs0)"
  using add_expense_invalid [of exact_ops "- 10" lunch env0 fs0 tracker0 food "Some june15"]
    add_expense_invalid [of exact_ops 50 "[32, 32, 32]" env0 fs0 tracker0 food "Some june15"]
  by (simp add: exact_ops_def strip_spaces)


text \<open>
  C2 as stated fails: the constructor builds a record from an amount \<open>- 1\<close> and an
  empty description, and raises nothing.
\<close>

theorem Expense_validation_counterexample:
  "op_le_zero exact_ops (- 1) \<and> strip [] = [] \<and>
   Expense env0 (- 1 :: real) food [] june15 (Some lunch) =
     Inr \<lparr>amount = - 1, category = food, description = [], date = june15, id' = lunch\<rparr> \<and>
   Expense env0 (- 1 :: real) food [] june15 (Some lunch) \<noteq> Inl ValueError"
  by (simp add: exact_ops_def strip_def Expense_def)

text \<open>
  C2, amended. Constructing an Expense directly never fails and checks nothing: every
  amount and description is stored as given. The checks on the amount and on the
  stripped description are made by \<open>add_expense\<close> only, which raises \<open>ValueError\<close>
  and leaves the tracker as it was.
\<close>

theorem Expense_never_validates:
  "Expense ev a c descr d ido =
     Inr \<lparr>amount = a, category = c, description = descr, date = d,
          id' = (case ido of None \<Rightarrow> generate_id ev descr | Some i \<Rightarrow> i)\<rparr> \<and>
   (op_le_zero ops a \<or> strip descr = [] \<longrightarrow>
      add_expense ops ev fs self a c descr dt = (Raises ValueError, self, fs))"
  by (simp add: Expense_def add_expense_rejects)

theorem Expense_never_validates_witness:
  "Expense env0 (- 1 :: real) food [] june15 (Some lunch) =
     Inr \<lparr>amount = - 1, category = food, description = [], date = june15, id' = lunch\<rparr> \<and>
   (op_le_zero exact_ops (- 1) \<or> strip [] = []) \<and>
   add_expense exact_ops env0 fs0 tracker0 (- 1) food [] (Some june15) =
     (Raises ValueError, tracker0, fs0)"
  using Expense_never_validates [where ev = env0 and a = "- 1" and c = food and descr = "[]"
      and d = june15 and ido = "Some lunch" and ops = exact_ops and fs = fs0 and self = tracker0
      and dt = "Some june15"]
  by (simp add: exact_ops_def)

lemma strip_lunch: "strip lunch = lunch" "strip (32 # lunch) = lunch"
  by (simp_all add: strip_def lunch_def isspace_def)

text \<open>
  C3 as stated fails: a valid call whose description starts with a space stores the
  stripped description, not the description the caller passed.
\<close>

theorem add_expense_description_counterexample:
  "\<not> op_le_zero exact_ops 50 \<and> strip (32 # lunch) \<noteq> [] \<and>
   map description
     (expenses (fst (snd (add_expense exact_ops env0 fs0 tracker0 50 food (32 # lunch)
        (Some june15))))) = [lunch] \<and>
   lunch \<noteq> 32 # lunch"
  by (simp add: strip_lunch add_expense_def Expense_def exact_ops_def tracker0_def Let_def)
    (simp add: lunch_def)

text \<open>
  C3, amended. For every input that passes the two checks, \<open>add_expense\<close> returns
  \<open>True\<close> and appends exactly one record at the end of the list, so the list grows by
  one and reading the category returns the record last. The record holds the amount, the
  category and the date as passed (today's date when none is passed) and the
  description stripped of leading and trailing whitespace.
\<close>

theorem add_expense_valid:
  assumes "\<not> op_le_zero ops amnt" and "strip descr \<noteq> []"
  shows "let expense = \<lparr>amount = amnt, category = cat, description = strip descr,
                date = (case dt of None \<Rightarrow> today ev | Some d \<Rightarrow> d),
                id' = generate_id ev (strip descr)\<rparr>;
             self' = self\<lparr>categories := insert cat (categories self),
                expenses := expenses self @ [expense]\<rparr>
         in add_expense ops ev fs self amnt cat descr dt =
              (Returns True, self', save_expenses fs self') \<and>
            expenses self' = expenses self @ [expense] \<and>
            length (expenses self') = length (expenses self) + 1 \<and>
            get_expenses_by_category self' cat = get_expenses_by_category self cat @ [expense]"
  using assms
  by (simp add: add_expense_def Expense_def Let_def get_expenses_by_category_def)

theorem add_expense_valid_witness:
  "\<not> op_le_zero exact_ops 50 \<and> strip (32 # lunch) \<noteq> [] \<and>
   (let expense = \<lparr>amount = 50, category = food, description = lunch, date = june15,
           id' = generate_id env0 lunch\<rparr>;
        self' = tracker0\<lparr>categories := insert food default_categories, expenses := [expense]\<rparr>
    in add_expense exact_ops env0 fs0 tracker0 50 food (32 # lunch) (Some june15) =
         (Returns True, self', save_expenses fs0 self') \<and>
       get_expenses_by_category self' food = [expense])"
  using add_expense_valid [where ops = exact_ops and amnt = 50 and descr = "32 # lunch" and cat = food
      and dt = "Some june15" and ev = env0 and self = tracker0 and fs = fs0]
  by (simp add: strip_lunch exact_ops_def tracker0_def Let_def get_expenses_by_category_def)
    (simp add: lunch_def)


lemma filter_neq_length:
  "length (filter (\<lambda>e. f e \<noteq> i) xs) < length xs \<longleftrightarrow> (\<exists>e \<in> set xs. f e = i)"
proof -
  have "length (filter (\<lambda>e. f e \<noteq> i) xs) = length xs \<longleftrightarrow> (\<forall>e \<in> set xs. f e \<noteq> i)"
    by (induction xs) (auto simp: le_imp_less_Suc [THEN less_imp_neq] length_filter_le)
  moreover have "length (filter (\<lambda>e. f e \<noteq> i) xs) \<le> length xs"
    by (rule length_filter_le)
  ultimately show ?thesis by (metis le_neq_implies_less less_irrefl)
qed

lemma filter_neq_id:
  "\<forall>e \<in> set xs. f e \<noteq> i \<Longrightarrow> filter (\<lambda>e. f e \<noteq> i) xs = xs"
  by (induction xs) auto

text \<open>
  C4 as stated fails: in a tracker of three records of which two share the id, removing
  that id removes both, and the size goes from 3 to 1.
\<close>

theorem remove_expense_counterexample:
  "id' expense1 = [105, 100, 49] \<and> length (expenses tracker3) = 3 \<and>
   remove_expense fs0 tracker3 [105, 100, 49] =
     (Returns True, tracker3\<lparr>expenses := [expense3]\<rparr>,
      save_expenses fs0 (tracker3\<lparr>expenses := [expense3]\<rparr>)) \<and>
   length (expenses (fst (snd (remove_expense fs0 tracker3 [105, 100, 49])))) = 1"
  by (simp add: remove_expense_def tracker3_def expense1_def expense2_def expense3_def Let_def)

text \<open>
  Records that share an id arise from the tracker's own operations: two valid calls of
  \<open>add_expense\<close> with the same description within one second of the clock generate
  the same id, and removing that id then removes both records.
\<close>

lemma duplicate_ids_reachable:
  "case add_expense exact_ops env0 fs0 tracker0 50 food lunch (Some june15) of
     (r1, t1, f1) \<Rightarrow>
       (case add_expense exact_ops env0 f1 t1 80 food lunch (Some may15) of
          (r2, t2, f2) \<Rightarrow>
            r1 = Returns True \<and> r2 = Returns True \<and>
            map id' (expenses t2) = [generate_id env0 lunch, generate_id env0 lunch] \<and>
            expenses (fst (snd (remove_expense f2 t2 (generate_id env0 lunch)))) = [])"
  by (simp add: add_expense_def Expense_def remove_expense_def strip_lunch exact_ops_def
      tracker0_def Let_def)
    (simp add: lunch_def)

text \<open>
  C4, amended. \<open>remove_expense\<close> removes every record whose id matches, keeps the
  others in their order, returns \<open>True\<close> and saves. When exactly one record has the
  id, that record alone is removed and the size decreases by exactly 1. When no record
  has the id, it returns \<open>False\<close> without raising, and the tracker and the file system
  are unchanged.
\<close>

theorem remove_expense_all_matching:
  "((\<exists>e \<in> set (expenses self). id' e = expense_id) \<longrightarrow>
      remove_expense fs self expense_id =
        (Returns True,
         self\<lparr>expenses := filter (\<lambda>e. id' e \<noteq> expense_id) (expenses self)\<rparr>,
         save_expenses fs (self\<lparr>expenses := filter (\<lambda>e. id' e \<noteq> expense_id) (expenses self)\<rparr>))) \<and>
   (expenses self = xs @ x # ys \<and> id' x = expense_id \<and>
      (\<forall>e \<in> set (xs @ ys). id' e \<noteq> expense_id) \<longrightarrow>
      remove_expense fs self expense_id =
        (Returns True, self\<lparr>expenses := xs @ ys\<rparr>, save_expenses fs (self\<lparr>expenses := xs @ ys\<rparr>)) \<and>
      length (xs @ ys) + 1 = length (expenses self)) \<and>
   (\<not> (\<exists>e \<in> set (expenses self). id' e = expense_id) \<longrightarrow>
      remove_expense fs self expense_id = (Returns False, self, fs))"
proof (intro conjI impI)
  assume "\<exists>e \<in> set (expenses self). id' e = expense_id"
  then show "remove_expense fs self expense_id =
        (Returns True,
         self\<lparr>expenses := filter (\<lambda>e. id' e \<noteq> expense_id) (expenses self)\<rparr>,
         save_expenses fs (self\<lparr>expenses := filter (\<lambda>e. id' e \<noteq> expense_id) (expenses self)\<rparr>))"
    by (simp add: remove_expense_def Let_def filter_neq_length)
next
  assume a: "expenses self = xs @ x # ys \<and> id' x = expense_id \<and>
      (\<forall>e \<in> set (xs @ ys). id' e \<noteq> expense_id)"
  then have f: "filter (\<lambda>e. id' e \<noteq> expense_id) (expenses self) = xs @ ys"
    by (simp add: filter_neq_id)
  have "\<exists>e \<in> set (expenses self). id' e = expense_id" using a by auto
  then have "length (filter (\<lambda>e. id' e \<noteq> expense_id) (expenses self)) < length (expenses self)"
    by (simp add: filter_neq_length)
  then show "remove_expense fs self expense_id =
        (Returns True, self\<lparr>expenses := xs @ ys\<rparr>, save_expenses fs (self\<lparr>expenses := xs @ ys\<rparr>))"
    unfolding remove_expense_def Let_def f by simp
  show "length (xs @ ys) + 1 = length (expenses self)" using a by simp
next
  assume "\<not> (\<exists>e \<in> set (expenses self). id' e = expense_id)"
  then have n: "\<forall>e \<in> set (expenses self). id' e \<noteq> expense_id" by simp
  then have f: "filter (\<lambda>e. id' e \<noteq> expense_id) (expenses self) = expenses self"
    by (rule filter_neq_id)
  show "remove_expense fs self expense_id = (Returns False, self, fs)"
    unfolding remove_expense_def Let_def f by simp
qed

theorem remove_expense_all_matching_witness:
  "(\<exists>e \<in> set (expenses tracker3). id' e = [105, 100, 51]) \<and>
   expenses tracker3 = [expense1, expense2] @ expense3 # [] \<and> id' expense3 = [105, 100, 51] \<and>
   [105, 100, 51] \<notin> id' ` set ([expense1, expense2] @ []) \<and>
   remove_expense fs0 tracker3 [105, 100, 51] =
     (Returns True, tracker3\<lparr>expenses := [expense1, expense2]\<rparr>,
      save_expenses fs0 (tracker3\<lparr>expenses := [expense1, expense2]\<rparr>)) \<and>
   \<not> (\<exists>e \<in> set (expenses tracker3). id' e = [120]) \<and>
   remove_expense fs0 tracker3 [120] = (Returns False, tracker3, fs0)"
  using remove_expense_all_matching [where self = tracker3 and expense_id = "[105, 100, 51]"
      and xs = "[expense1, expense2]" and x = expense3 and ys = "[]" and fs = fs0]
    remove_expense_all_matching [where self = tracker3 and expense_id = "[120]"
      and xs = "[]" and x = expense3 and ys = "[]" and fs = fs0]
  by (simp add: tracker3_def expense1_def expense2_def expense3_def)

section \<open>Saving and loading\<close>

lemma from_items_to_dict:
  "\<forall>e \<in> set es. valid_date (date e) \<Longrightarrow> from_items ev (map (Object \<circ> to_dict) es) = Inr es"
  by (induction es) (simp_all add: from_dict_inverse)

lemma to_dict_encodable:
  "dict_encodable (to_dict e) \<longleftrightarrow>
     utf8_encodable (category e) \<and> utf8_encodable (description e) \<and> utf8_encodable (id' e)"
  by (auto simp: dict_encodable_def to_dict_def opt_encodable_def isoformat_encodable)

lemma json_dump_to_dict:
  assumes "\<forall>e \<in> set es.
    utf8_encodable (category e) \<and> utf8_encodable (description e) \<and> utf8_encodable (id' e)"
  shows "json_dump (map to_dict es) = Inr (Json (Array (map (Object \<circ> to_dict) es)))"
  using assms by (simp add: json_dump_def list_all_iff to_dict_encodable)

lemma save_expenses_written:
  assumes "fs (data_file self) = NoFile True \<or> (\<exists>t. fs (data_file self) = File True True t)"
    and "\<forall>e \<in> set (expenses self).
      utf8_encodable (category e) \<and> utf8_encodable (description e) \<and> utf8_encodable (id' e)"
  shows "save_expenses fs self =
    fs(data_file self := File True True (Json (Array (map (Object \<circ> to_dict) (expenses self)))))"
proof -
  have o: "open_write fs (data_file self) = Inr (fs(data_file self := File True True Malformed))"
    using assms(1) by (auto simp: open_write_def)
  show ?thesis
    by (simp add: save_expenses_def o json_dump_to_dict [OF assms(2)] write_text_def)
qed

lemma valid_dates3:
  "valid_date (date expense1)" "valid_date (date expense2)" "valid_date (date expense3)"
  by (simp_all add: expense1_def expense2_def expense3_def valid_date_def june15_def
      days_in_month_def)

text \<open>
  C6 as stated fails: a tracker holding a record whose description is a lone surrogate
  cannot be written. The file is opened and emptied, \<open>json.dump\<close> raises in the middle,
  \<open>_save_expenses\<close> catches the exception, and a new tracker on the same path finds no
  JSON and starts empty.
\<close>

theorem save_then_reload_counterexample:
  "fs0 (data_file surrogate_tracker) = NoFile True \<and>
   map description (expenses surrogate_tracker) = [[55296]] \<and>
   map date (expenses surrogate_tracker) = [june15] \<and>
   save_expenses fs0 surrogate_tracker = fs0([100, 98] := File True True Malformed) \<and>
   ExpenseTracker env0 (save_expenses fs0 surrogate_tracker) (data_file surrogate_tracker) =
     Inr \<lparr>data_file = [100, 98], expenses = [], categories = default_categories\<rparr>"
  by (simp add: surrogate_tracker_def fs0_def save_expenses_def open_write_def json_dump_def
      dict_encodable_def to_dict_def opt_encodable_def utf8_encodable_def ExpenseTracker_def
      load_expenses_def load_try_def exists_def open_read_def json_load_def)

text \<open>
  Such a tracker arises from the tracker's own operations: \<open>add_expense\<close> accepts the
  description, keeps the record in memory and returns \<open>True\<close>, and the file it leaves
  gives an empty tracker.
\<close>

lemma unencodable_reachable:
  "fst (add_expense exact_ops env0 fs0 tracker0 50 food [55296] (Some june15)) = Returns True \<and>
   map description
     (expenses (fst (snd (add_expense exact_ops env0 fs0 tracker0 50 food [55296]
        (Some june15))))) = [[55296]] \<and>
   ExpenseTracker env0
     (snd (snd (add_expense exact_ops env0 fs0 tracker0 50 food [55296] (Some june15))))
     [100, 98] =
     Inr \<lparr>data_file = [100, 98], expenses = [], categories = default_categories\<rparr>"
proof -
  have s: "strip [55296] = [55296]" by (simp add: strip_def isspace_def)
  show ?thesis
    by (simp add: add_expense_def s exact_ops_def Expense_def Let_def tracker0_def fs0_def
        save_expenses_def open_write_def json_dump_def dict_encodable_def to_dict_def
        opt_encodable_def utf8_encodable_def ExpenseTracker_def load_expenses_def load_try_def
        exists_def open_read_def json_load_def)
qed

text \<open>
  C6, amended. Persist, then construct a new tracker on the same path: when the write
  succeeds, the new tracker holds the same list of expenses: same length, same order,
  each record equal in every field, the id included. The write succeeds when the path
  can be created or holds a file open to reading and writing, and no category,
  description or id holds a surrogate code point. The dates are dates of the calendar,
  as every \<open>datetime.date\<close> is.
\<close>

theorem save_then_reload:
  assumes "\<forall>e \<in> set (expenses self). valid_date (date e)"
    and "\<forall>e \<in> set (expenses self).
      utf8_encodable (category e) \<and> utf8_encodable (description e) \<and> utf8_encodable (id' e)"
    and "fs (data_file self) = NoFile True \<or> (\<exists>t. fs (data_file self) = File True True t)"
  shows "ExpenseTracker ev (save_expenses fs self) (data_file self) =
    Inr \<lparr>data_file = data_file self, expenses = expenses self,
         categories = default_categories\<rparr>"
proof -
  let ?t = "Json (Array (map (Object \<circ> to_dict) (expenses self)))"
  have s: "save_expenses fs self = fs(data_file self := File True True ?t)"
    using assms(3) assms(2) by (rule save_expenses_written)
  have l: "load_try ev (fs(data_file self := File True True ?t)) (data_file self) =
      Inr (Some (expenses self))"
    by (simp add: load_try_def exists_def open_read_def json_load_def
        from_items_to_dict [OF assms(1)])
  show ?thesis
    unfolding ExpenseTracker_def s by (simp add: load_expenses_def l)
qed

lemma encodable3:
  "utf8_encodable food" "utf8_encodable lunch" "utf8_encodable [105, 100, 49]"
  "utf8_encodable [102, 117, 110]" "utf8_encodable [105, 100, 51]"
  by (simp_all add: utf8_encodable_def food_def lunch_def)

theorem save_then_reload_witness:
  "fs0 (data_file tracker3) = NoFile True \<and>
   ExpenseTracker env0 (save_expenses fs0 tracker3) (data_file tracker3) =
     Inr \<lparr>data_file = data_file tracker3, expenses = [expense1, expense2, expense3],
          categories = default_categories\<rparr>"
  using save_then_reload [where self = tracker3 and fs = fs0 and ev = env0] valid_dates3
    encodable3
  by (simp add: tracker3_def fs0_def expense1_def expense2_def expense3_def)

lemma from_items_fails:
  "i \<in> set items \<Longrightarrow> isl (from_item ev i) \<Longrightarrow> isl (from_items ev items)"
  by (induction items) (auto split: sum.splits)

lemma from_items_all:
  "from_items ev items = Inr es \<Longrightarrow> map (from_item ev) items = map Inr es"
  by (induction items arbitrary: es) (auto split: sum.splits)

lemma load_expenses_cases:
  "load_expenses ev fs self = self\<lparr>expenses := []\<rparr> \<or>
   (\<exists>r w items es. fs (data_file self) = File r w (Json (Array items)) \<and>
      from_items ev items = Inr es \<and> load_expenses ev fs self = self\<lparr>expenses := es\<rparr>) \<or>
   ((\<exists>c. fs (data_file self) = NoFile c) \<and> load_expenses ev fs self = self)"
  by (auto simp: load_expenses_def load_try_def exists_def open_read_def json_load_def
      split: node.splits sum.splits option.splits bool.splits content.splits json.splits)

text \<open>
  C8. Construction always returns a tracker. On a file of malformed JSON, and on a
  path with no file, the tracker starts with the empty list. A file is never recovered
  in part: when one element of the array fails to deserialize the list is empty, and
  in every case the list is either empty or the whole array, deserialized.
\<close>

theorem load_fails_open:
  "(fs p = File r w Malformed \<longrightarrow>
      ExpenseTracker ev fs p = Inr \<lparr>data_file = p, expenses = [], categories = default_categories\<rparr>) \<and>
   (fs p = NoFile c \<longrightarrow>
      ExpenseTracker ev fs p = Inr \<lparr>data_file = p, expenses = [], categories = default_categories\<rparr>) \<and>
   (fs p = File r w (Json (Array items)) \<and> (\<exists>i \<in> set items. isl (from_item ev i)) \<longrightarrow>
      ExpenseTracker ev fs p = Inr \<lparr>data_file = p, expenses = [], categories = default_categories\<rparr>) \<and>
   (\<exists>es. ExpenseTracker ev fs p = Inr \<lparr>data_file = p, expenses = es, categories = default_categories\<rparr> \<and>
      (es = [] \<or> (\<exists>r w items. fs p = File r w (Json (Array items)) \<and>
          map (from_item ev) items = map Inr es)))"
proof (intro conjI impI)
  assume "fs p = File r w Malformed"
  then show "ExpenseTracker ev fs p =
      Inr \<lparr>data_file = p, expenses = [], categories = default_categories\<rparr>"
    by (simp add: ExpenseTracker_def load_expenses_def load_try_def exists_def open_read_def
        json_load_def split: bool.splits)
next
  assume "fs p = NoFile c"
  then show "ExpenseTracker ev fs p =
      Inr \<lparr>data_file = p, expenses = [], categories = default_categories\<rparr>"
    by (simp add: ExpenseTracker_def load_expenses_def load_try_def exists_def)
next
  assume a: "fs p = File r w (Json (Array items)) \<and> (\<exists>i \<in> set items. isl (from_item ev i))"
  then have "isl (from_items ev items)" by (auto intro: from_items_fails)
  then obtain e where "from_items ev items = Inl e" by (cases "from_items ev items") auto
  with a show "ExpenseTracker ev fs p =
      Inr \<lparr>data_file = p, expenses = [], categories = default_categories\<rparr>"
    by (simp add: ExpenseTracker_def load_expenses_def load_try_def exists_def open_read_def
        json_load_def split: bool.splits)
next
  let ?s = "\<lparr>data_file = p, expenses = [], categories = default_categories\<rparr> :: 'a tracker"
  from load_expenses_cases [of ev fs ?s]
  show "\<exists>es. ExpenseTracker ev fs p =
      Inr \<lparr>data_file = p, expenses = es, categories = default_categories\<rparr> \<and>
      (es = [] \<or> (\<exists>r w items. fs p = File r w (Json (Array items)) \<and>
          map (from_item ev) items = map Inr es))"
    unfolding ExpenseTracker_def
    by (auto dest: from_items_all)
qed

lemma fromisoformat_no_padding:
  "fromisoformat env0 [50, 48, 50, 52, 45, 54, 45, 49, 53] = None"
  by (simp add: fromisoformat_def iso_extended.simps env0_def)

theorem load_fails_open_witness:
  "fs3 [100, 98] = File True False Malformed \<and>
   ExpenseTracker env0 fs3 [100, 98] =
     Inr \<lparr>data_file = [100, 98], expenses = [], categories = default_categories\<rparr> \<and>
   fs0 [100, 98] = NoFile True \<and>
   ExpenseTracker env0 fs0 [100, 98] =
     Inr \<lparr>data_file = [100, 98], expenses = [], categories = default_categories\<rparr> \<and>
   fs4 [100, 98] = File True True (Json (Array [Object (to_dict expense1), Object bad_dict])) \<and>
   from_item env0 (Object (to_dict expense1)) = Inr expense1 \<and>
   from_item env0 (Object bad_dict) = Inl ValueError \<and>
   ExpenseTracker env0 fs4 [100, 98] =
     Inr \<lparr>data_file = [100, 98], expenses = [], categories = default_categories\<rparr>"
  using load_fails_open [where fs = fs3 and p = "[100, 98]" and r = True and w = False
      and ev = env0 and c = True and items = "[]"]
    load_fails_open [where fs = fs0 and p = "[100, 98]" and r = True and w = False
      and ev = env0 and c = True and items = "[]"]
    load_fails_open [where fs = fs4 and p = "[100, 98]" and r = True and w = True
      and ev = env0 and c = True and items = "[Object (to_dict expense1), Object bad_dict]"]
    from_dict_inverse [of expense1 env0] valid_dates3
  by (simp add: fs3_def fs0_def fs4_def bad_dict_def from_dict_def to_dict_def
      fromisoformat_no_padding)

section \<open>Deserialize: what it rejects\<close>








section \<open>Reading by date range\<close>

lemma date_le_refl: "date_le d d"
  by (simp add: date_le_def)

lemma date_lt_not_le: "date_lt a b \<longleftrightarrow> \<not> date_le b a"
  by (auto simp: date_lt_def date_le_def)

text \<open>
  C10. \<open>get_expenses_by_date_range\<close> returns exactly the records whose date \<open>d\<close>
  satisfies \<open>start <= d <= end\<close>, in the order of the list: a record dated on either
  bound is returned, a record dated strictly before the start or strictly after the end
  is not.
\<close>

theorem date_range_inclusive:
  "get_expenses_by_date_range self s e =
     filter (\<lambda>x. date_le s (date x) \<and> date_le (date x) e) (expenses self) \<and>
   subseq (get_expenses_by_date_range self s e) (expenses self) \<and>
   (\<forall>x. x \<in> set (get_expenses_by_date_range self s e) \<longleftrightarrow>
      x \<in> set (expenses self) \<and> date_le s (date x) \<and> date_le (date x) e) \<and>
   (\<forall>x \<in> set (expenses self). date_le s e \<and> (date x = s \<or> date x = e) \<longrightarrow>
      x \<in> set (get_expenses_by_date_range self s e)) \<and>
   (\<forall>x \<in> set (expenses self). date_lt (date x) s \<or> date_lt e (date x) \<longrightarrow>
      x \<notin> set (get_expenses_by_date_range self s e))"
  by (auto simp: get_expenses_by_date_range_def date_le_refl date_lt_not_le)

theorem date_range_inclusive_witness:
  "get_expenses_by_date_range tracker3 may15 june15 = [expense1, expense2] \<and>
   date expense1 = june15 \<and> date expense2 = may15 \<and> date_le may15 june15 \<and>
   date_lt june15 (date expense3) \<and>
   expense3 \<notin> set (get_expenses_by_date_range tracker3 may15 june15)"
  using date_range_inclusive [where self = tracker3 and s = may15 and e = june15]
  by (simp add: tracker3_def expense1_def expense2_def expense3_def may15_def june15_def
      date_le_def date_lt_def)

section \<open>The monthly summary\<close>

lemma category_loop_lookup:
  "category_loop ops totals es c =
     (case totals c of
        None \<Rightarrow> subtotal ops es c
      | Some t \<Rightarrow> Some (foldl (op_add ops) t (map amount (filter (\<lambda>e. category e = c) es))))"
proof (induction es arbitrary: totals)
  case Nil
  then show ?case by (simp add: subtotal_def split: option.splits)
next
  case (Cons e es)
  show ?case
    by (simp add: Cons.IH subtotal_def split: option.splits)
qed

lemma category_loop_empty: "category_loop ops Map.empty es = subtotal ops es"
  by (rule ext) (simp add: category_loop_lookup)

text \<open>
  C7. \<open>calculate_monthly_summary\<close> considers exactly the records whose date has the
  given year and month. It returns their number, their subtotal per category
  (unrounded), the sum of their amounts rounded to two places and that sum divided by
  their number, rounded to two places. When no record matches it returns total
  \<open>0.0\<close>, count 0, average \<open>0.0\<close> and the empty dict.
\<close>

theorem monthly_summary:
  "let sub = filter (\<lambda>e. int (year (date e)) = y \<and> int (month (date e)) = m) (expenses self);
       r = calculate_monthly_summary ops self y m
   in expense_count r = length sub \<and>
      summary_categories r = subtotal ops sub \<and>
      (sub = [] \<longrightarrow>
         r = \<lparr>total_amount = op_zero ops, expense_count = 0, average_amount = op_zero ops,
              summary_categories = Map.empty\<rparr>) \<and>
      (sub \<noteq> [] \<longrightarrow>
         total_amount r = op_round2 ops (op_sum ops (map amount sub)) \<and>
         average_amount r =
           op_round2 ops (op_div ops (op_sum ops (map amount sub)) (length sub)))"
  by (simp add: calculate_monthly_summary_def Let_def category_loop_empty)
    (auto simp: subtotal_def)

lemma food_shopping: "food \<noteq> shopping" "shopping \<noteq> food"
  by (simp_all add: food_def shopping_def)

theorem monthly_summary_witness:
  "total_amount (calculate_monthly_summary exact_ops june_tracker 2024 6) = 380 \<and>
   expense_count (calculate_monthly_summary exact_ops june_tracker 2024 6) = 3 \<and>
   average_amount (calculate_monthly_summary exact_ops june_tracker 2024 6) = 12667 / 100 \<and>
   summary_categories (calculate_monthly_summary exact_ops june_tracker 2024 6) food = Some 180 \<and>
   summary_categories (calculate_monthly_summary exact_ops june_tracker 2024 6) shopping =
     Some 200 \<and>
   dom (summary_categories (calculate_monthly_summary exact_ops june_tracker 2024 6)) =
     {food, shopping} \<and>
   calculate_monthly_summary exact_ops june_tracker 2024 12 =
     \<lparr>total_amount = 0, expense_count = 0, average_amount = 0,
      summary_categories = Map.empty\<rparr>"
proof -
  have sub6:
    "filter (\<lambda>e. int (year (date e)) = 2024 \<and> int (month (date e)) = 6) (expenses june_tracker) =
       [\<lparr>amount = 100, category = food, description = lunch, date = june15, id' = [49]\<rparr>,
        \<lparr>amount = 200, category = shopping, description = lunch, date = june15, id' = [50]\<rparr>,
        \<lparr>amount = 80, category = food, description = lunch, date = june15, id' = [51]\<rparr>]"
    by (simp add: june_tracker_def june15_def may15_def)
  have sub12:
    "filter (\<lambda>e. int (year (date e)) = 2024 \<and> int (month (date e)) = 12) (expenses june_tracker) = []"
    by (simp add: june_tracker_def june15_def may15_def)
  have dom6: "dom (subtotal exact_ops
       [\<lparr>amount = 100, category = food, description = lunch, date = june15, id' = [49]\<rparr>,
        \<lparr>amount = 200, category = shopping, description = lunch, date = june15, id' = [50]\<rparr>,
        \<lparr>amount = 80, category = food, description = lunch, date = june15, id' = [51]\<rparr>]) =
      {food, shopping}"
    by (auto simp: subtotal_def dom_def food_shopping split: list.splits if_splits)
  show ?thesis
    using monthly_summary [where self = june_tracker and ops = exact_ops and y = 2024 and m = 6]
      monthly_summary [where self = june_tracker and ops = exact_ops and y = 2024 and m = 12]
    unfolding Let_def sub6 sub12
    by (simp add: dom6)
      (simp add: subtotal_def food_shopping exact_ops_def round_half_even_def)
qed

end
